theory Spec2Isabelle
  imports Main
begin

section \<open>The CSR auto-approval controller (pkg/controller/csr/csr_controller.go)\<close>

subsection \<open>Data model\<close>

text \<open>
  Timestamps (\<open>metav1.Time\<close>) are natural numbers; only the value read from
  \<open>metav1.Now()\<close> matters, and it is passed to \<open>Reconcile\<close> as an argument.
\<close>

type_synonym Time = nat

text \<open>
  \<open>metav1.ObjectMeta\<close>, embedded by every API object. The label map is given as the
  list of its key/value pairs in the order one \<open>range\<close> loop visits them; a Go map
  holds each key once, so the keys of a well-formed label list are distinct.
  \<open>DeletionTimestamp\<close> is a pointer: \<open>None\<close> is \<open>nil\<close>.
\<close>

record ObjectMeta =
  Name :: string
  Labels :: "(string \<times> string) list"
  DeletionTimestamp :: "Time option"

text \<open>
  \<open>certificatesv1beta1.RequestConditionType\<close> is a string type; the two constants
  are those of \<open>k8s.io/api/certificates/v1beta1\<close>.
\<close>

definition CertificateApproved :: string where
  "CertificateApproved = ''Approved''"

definition CertificateDenied :: string where
  "CertificateDenied = ''Denied''"

record CertificateSigningRequestCondition =
  Type :: string
  Reason :: string
  Message :: string
  LastUpdateTime :: Time

record CertificateSigningRequestSpec =
  Username :: string

text \<open>A slice is \<open>None\<close> when it is \<open>nil\<close>, as the code tests for it.\<close>

record CertificateSigningRequestStatus =
  Conditions :: "CertificateSigningRequestCondition list option"

record CertificateSigningRequest = ObjectMeta +
  Spec :: CertificateSigningRequestSpec
  Status :: CertificateSigningRequestStatus

text \<open>\<open>clusterv1.ManagedCluster\<close>: the controller reads nothing of it but that it exists.\<close>

record ManagedCluster = ObjectMeta +
  HubAcceptsClient :: bool

text \<open>
  Errors of the API machinery. \<open>errors.IsNotFound\<close> recognises the not-found status;
  every other failure of a read or a write is one of the remaining values.
\<close>

datatype error = NotFound | Conflict | ServerError string

fun IsNotFound :: "error \<Rightarrow> bool" where
  "IsNotFound NotFound = True"
| "IsNotFound _ = False"

text \<open>\<open>types.NamespacedName\<close> is the pair (namespace, name).\<close>

type_synonym NamespacedName = "string \<times> string"

text \<open>
  The controller-runtime client, as far as the controller uses it: \<open>Get\<close> of a
  CertificateSigningRequest and \<open>Get\<close> of a ManagedCluster, each answering with the
  object or an error.
\<close>

record Client =
  Get_CertificateSigningRequest :: "NamespacedName \<Rightarrow> error + CertificateSigningRequest"
  Get_ManagedCluster :: "NamespacedName \<Rightarrow> error + ManagedCluster"

text \<open>
  The kube client, as far as the controller uses it:
  \<open>CertificatesV1beta1().CertificateSigningRequests().UpdateApproval\<close>.
\<close>

record KubeClient =
  UpdateApproval :: "CertificateSigningRequest \<Rightarrow> error + CertificateSigningRequest"

text \<open>
  The reconciler. \<open>kubeClient\<close> is an interface value and may be \<open>nil\<close> (\<open>None\<close>);
  the \<open>scheme\<close> field is never read and is left out.
\<close>

record ReconcileCSR =
  client :: Client
  kubeClient :: "KubeClient option"

record Manager =
  GetClient :: Client

record Result =
  Requeue :: bool
  RequeueAfter :: nat

text \<open>
  What one call of \<open>Reconcile\<close> does: it returns a result and an error (\<open>None\<close> is
  \<open>nil\<close>), or it panics on a nil dereference; on the way it may have submitted approval
  updates, recorded in call order.
\<close>

datatype outcome = Return Result "error option" | Panic

record Run =
  outcome_of :: outcome
  submitted :: "CertificateSigningRequest list"

subsection \<open>Constants\<close>

definition clusterLabel :: string where
  "clusterLabel = ''open-cluster-management.io/cluster-name''"

text \<open>\<open>fmt.Sprintf(userNameSignature, a, b)\<close> with the two \<open>%s\<close> verbs filled by strings.\<close>

definition userNameSignature :: "string \<Rightarrow> string \<Rightarrow> string" where
  "userNameSignature a b = ''system:serviceaccount:'' @ a @ '':'' @ b @ ''-bootstrap-sa''"

subsection \<open>The eligibility filter\<close>

text \<open>The loop of \<open>getClusterName\<close> over the labels, \<open>clusterName\<close> as accumulator.\<close>

fun getClusterName_loop :: "(string \<times> string) list \<Rightarrow> string \<Rightarrow> string" where
  "getClusterName_loop [] clusterName = clusterName"
| "getClusterName_loop ((label, v) # rest) clusterName =
     getClusterName_loop rest (if label = clusterLabel then v else clusterName)"

definition getClusterName :: "'a CertificateSigningRequest_scheme \<Rightarrow> string" where
  "getClusterName csr = getClusterName_loop (Labels csr) ''''"

fun getApprovalType_loop :: "CertificateSigningRequestCondition list \<Rightarrow> string" where
  "getApprovalType_loop [] = ''''"
| "getApprovalType_loop (c # cs) =
     (if Type c = CertificateApproved \<or> Type c = CertificateDenied then Type c
      else getApprovalType_loop cs)"

definition getApprovalType :: "'a CertificateSigningRequest_scheme \<Rightarrow> string" where
  "getApprovalType csr =
     (case Conditions (Status csr) of
        None \<Rightarrow> ''''
      | Some cs \<Rightarrow> getApprovalType_loop cs)"

definition validUsername :: "'a CertificateSigningRequest_scheme \<Rightarrow> string \<Rightarrow> bool" where
  "validUsername csr clusterName =
     (Username (Spec csr) = userNameSignature clusterName clusterName)"

definition csrPredicate :: "'a CertificateSigningRequest_scheme \<Rightarrow> bool" where
  "csrPredicate csr =
     (let clusterName = getClusterName csr in
      clusterName \<noteq> '''' \<and>
      getApprovalType csr = '''' \<and>
      validUsername csr clusterName)"

text \<open>
  The two event filters that \<open>add\<close> installs on the watch: an update event is judged by
  its new object, a create event by its object.
\<close>

definition UpdateFunc :: "CertificateSigningRequest \<Rightarrow> CertificateSigningRequest \<Rightarrow> bool" where
  "UpdateFunc ObjectOld ObjectNew = csrPredicate ObjectNew"

definition CreateFunc :: "CertificateSigningRequest \<Rightarrow> bool" where
  "CreateFunc Object = csrPredicate Object"

subsection \<open>The reconciler\<close>

text \<open>
  \<open>newReconciler\<close>: the second argument is what \<open>libgoclient.NewDefaultKubeClient\<close>
  answered; on an error the reconciler is built with a nil kube client.
\<close>

definition newReconciler :: "Manager \<Rightarrow> error + KubeClient \<Rightarrow> ReconcileCSR" where
  "newReconciler mgr newDefaultKubeClient =
     \<lparr>client = GetClient mgr,
      kubeClient = (case newDefaultKubeClient of Inl err \<Rightarrow> None | Inr kc \<Rightarrow> Some kc)\<rparr>"

definition emptyResult :: Result where
  "emptyResult = \<lparr>Requeue = False, RequeueAfter = 0\<rparr>"

text \<open>The elements of a slice; a nil slice has none.\<close>

fun elems :: "'a list option \<Rightarrow> 'a list" where
  "elems None = []"
| "elems (Some xs) = xs"

text \<open>Go's \<open>append(s, x)\<close>: the result is never nil.\<close>

definition append_slice :: "'a list option \<Rightarrow> 'a \<Rightarrow> 'a list option" where
  "append_slice s x = Some (elems s @ [x])"

definition approvedCondition :: "Time \<Rightarrow> CertificateSigningRequestCondition" where
  "approvedCondition now =
     \<lparr>Type = CertificateApproved,
      Reason = ''AutoApprovedByCSRController'',
      Message = ''The managedcluster-import-controller auto approval automatically approved this CSR'',
      LastUpdateTime = now\<rparr>"

text \<open>
  Lines 169 to 178 of \<open>Reconcile\<close>: a nil condition slice is replaced by an empty one,
  then the Approved condition is appended.
\<close>

definition approve :: "CertificateSigningRequest \<Rightarrow> Time \<Rightarrow> CertificateSigningRequest" where
  "approve instance now =
     (let instance1 =
        (if Conditions (Status instance) = None
         then instance\<lparr>Status := (Status instance)\<lparr>Conditions := Some []\<rparr>\<rparr>
         else instance)
      in instance1\<lparr>Status := (Status instance1)
           \<lparr>Conditions := append_slice (Conditions (Status instance1)) (approvedCondition now)\<rparr>\<rparr>)"

text \<open>
  \<open>Reconcile\<close>. The request is the namespaced name of the CSR; \<open>now\<close> is what
  \<open>metav1.Now()\<close> reads. Logging is left out.
\<close>

definition Reconcile :: "ReconcileCSR \<Rightarrow> NamespacedName \<Rightarrow> Time \<Rightarrow> Run" where
  "Reconcile r request now =
     (case Get_CertificateSigningRequest (client r) request of
        Inl err \<Rightarrow>
          if IsNotFound err
          then \<lparr>outcome_of = Return emptyResult None, submitted = []\<rparr>
          else \<lparr>outcome_of = Return emptyResult (Some err), submitted = []\<rparr>
      | Inr instance \<Rightarrow>
          if DeletionTimestamp instance \<noteq> None
          then \<lparr>outcome_of = Return emptyResult None, submitted = []\<rparr>
          else
            let clusterName = getClusterName instance in
            (case Get_ManagedCluster (client r) ('''', clusterName) of
               Inl err \<Rightarrow> \<lparr>outcome_of = Return emptyResult None, submitted = []\<rparr>
             | Inr cluster \<Rightarrow>
                 let instance' = approve instance now in
                 (case kubeClient r of
                    None \<Rightarrow> \<lparr>outcome_of = Panic, submitted = []\<rparr>
                  | Some kc \<Rightarrow>
                      (case UpdateApproval kc instance' of
                         Inl err \<Rightarrow>
                           \<lparr>outcome_of = Return emptyResult (Some err), submitted = [instance']\<rparr>
                       | Inr updated \<Rightarrow>
                           \<lparr>outcome_of = Return emptyResult None, submitted = [instance']\<rparr>))))"

text \<open>
  The run of a call that ends in \<open>return reconcile.Result{}, nil\<close> before anything
  was submitted.
\<close>

definition terminalSuccess :: Run where
  "terminalSuccess = \<lparr>outcome_of = Return emptyResult None, submitted = []\<rparr>"

subsection \<open>Scenarios\<close>

text \<open>
  Concrete requests, stores and reconcilers on which the theorems below are evaluated.
  The first is the scenario of the specification: a CSR named \<open>csr-1\<close> for the cluster
  \<open>alpha\<close>, asking for the bootstrap identity of \<open>alpha\<close>, with no condition yet.
\<close>

definition csr_alpha :: CertificateSigningRequest where
  "csr_alpha =
     \<lparr>Name = ''csr-1'',
      Labels = [(''open-cluster-management.io/cluster-name'', ''alpha'')],
      DeletionTimestamp = None,
      Spec = \<lparr>Username = ''system:serviceaccount:alpha:alpha-bootstrap-sa''\<rparr>,
      Status = \<lparr>Conditions = None\<rparr>\<rparr>"

definition csr_approved :: CertificateSigningRequest where
  "csr_approved = csr_alpha\<lparr>Status := \<lparr>Conditions = Some [approvedCondition 1]\<rparr>\<rparr>"

definition csr_beta_user :: CertificateSigningRequest where
  "csr_beta_user =
     csr_alpha\<lparr>Spec := \<lparr>Username = ''system:serviceaccount:beta:alpha-bootstrap-sa''\<rparr>\<rparr>"

definition csr_deleting :: CertificateSigningRequest where
  "csr_deleting = csr_alpha\<lparr>DeletionTimestamp := Some 3\<rparr>"

definition csr_unlabeled :: CertificateSigningRequest where
  "csr_unlabeled = csr_alpha\<lparr>Labels := []\<rparr>"

definition cluster_alpha :: ManagedCluster where
  "cluster_alpha =
     \<lparr>Name = ''alpha'', Labels = [], DeletionTimestamp = None, HubAcceptsClient = True\<rparr>"

definition store_with :: "CertificateSigningRequest \<Rightarrow> ManagedCluster list \<Rightarrow> Client" where
  "store_with csr clusters =
     \<lparr>Get_CertificateSigningRequest =
        (\<lambda>key. if key = ('''', Name csr) then Inr csr else Inl NotFound),
      Get_ManagedCluster =
        (\<lambda>key. case find (\<lambda>c. ('''', Name c) = key) clusters of
                  None \<Rightarrow> Inl NotFound
                | Some c \<Rightarrow> Inr c)\<rparr>"

definition accepting :: KubeClient where
  "accepting = \<lparr>UpdateApproval = (\<lambda>csr. Inr csr)\<rparr>"

definition reconciler_with :: "CertificateSigningRequest \<Rightarrow> ManagedCluster list \<Rightarrow> ReconcileCSR" where
  "reconciler_with csr clusters =
     newReconciler \<lparr>GetClient = store_with csr clusters\<rparr> (Inr accepting)"

definition reconciler_without_kubeClient ::
    "CertificateSigningRequest \<Rightarrow> ManagedCluster list \<Rightarrow> ReconcileCSR" where
  "reconciler_without_kubeClient csr clusters =
     newReconciler \<lparr>GetClient = store_with csr clusters\<rparr> (Inl (ServerError ''no kubeconfig''))"

section \<open>Properties\<close>

subsection \<open>Basic facts\<close>

lemmas scenario_defs =
  csr_alpha_def csr_approved_def csr_beta_user_def csr_deleting_def csr_unlabeled_def
  cluster_alpha_def store_with_def accepting_def reconciler_with_def
  reconciler_without_kubeClient_def newReconciler_def

lemmas code_defs =
  Reconcile_def getClusterName_def clusterLabel_def csrPredicate_def getApprovalType_def
  validUsername_def userNameSignature_def approve_def append_slice_def approvedCondition_def
  CertificateApproved_def CertificateDenied_def emptyResult_def terminalSuccess_def

lemma getClusterName_loop_absent:
  "clusterLabel \<notin> fst ` set ls \<Longrightarrow> getClusterName_loop ls acc = acc"
  by (induction ls arbitrary: acc) auto

lemma getClusterName_loop_distinct:
  "distinct (map fst ls) \<Longrightarrow>
   getClusterName_loop ls acc = (case map_of ls clusterLabel of None \<Rightarrow> acc | Some v \<Rightarrow> v)"
proof (induction ls arbitrary: acc)
  case Nil
  then show ?case by simp
next
  case (Cons p rest)
  obtain label v where p: "p = (label, v)" by (cases p)
  from Cons.prems p have d: "distinct (map fst rest)" and fresh: "label \<notin> fst ` set rest"
    by auto
  show ?case
  proof (cases "label = clusterLabel")
    case True
    with fresh have "getClusterName_loop rest v = v"
      by (simp add: getClusterName_loop_absent)
    with True p show ?thesis by simp
  next
    case False
    with p Cons.IH [OF d] show ?thesis by simp
  qed
qed

text \<open>
  The order in which the loop meets the labels does not matter, as it must not: Go leaves
  the iteration order of a map open.
\<close>

lemma getClusterName_loop_order:
  assumes "distinct (map fst ls)" and "distinct (map fst ls')" and "set ls = set ls'"
  shows "getClusterName_loop ls acc = getClusterName_loop ls' acc"
proof -
  from assms have "map_of ls = map_of ls'"
    by (simp add: map_of_inject_set)
  with assms(1,2) show ?thesis
    by (simp add: getClusterName_loop_distinct)
qed

lemma getApprovalType_loop_empty_iff:
  "getApprovalType_loop cs = '''' \<longleftrightarrow>
   (\<forall>c \<in> set cs. Type c \<noteq> CertificateApproved \<and> Type c \<noteq> CertificateDenied)"
  by (induction cs) (auto simp: CertificateApproved_def CertificateDenied_def)

lemma getApprovalType_empty_iff:
  "getApprovalType csr = '''' \<longleftrightarrow>
   (\<forall>c \<in> set (elems (Conditions (Status csr))).
      Type c \<noteq> CertificateApproved \<and> Type c \<noteq> CertificateDenied)"
  by (cases "Conditions (Status csr)") (simp_all add: getApprovalType_def getApprovalType_loop_empty_iff)

lemma elems_approve:
  "elems (Conditions (Status (approve instance now))) =
   elems (Conditions (Status instance)) @ [approvedCondition now]"
  by (cases "Conditions (Status instance)") (simp_all add: approve_def append_slice_def)

lemma approve_eq:
  "approve instance now =
   instance\<lparr>Status := \<lparr>Conditions = Some (elems (Conditions (Status instance)) @ [approvedCondition now])\<rparr>\<rparr>"
  by (cases "Conditions (Status instance)") (simp_all add: approve_def append_slice_def)

text \<open>What \<open>Reconcile\<close> submits no longer passes the event filter.\<close>

lemma approve_not_eligible: "\<not> csrPredicate (approve csr now)"
proof -
  have "approvedCondition now \<in> set (elems (Conditions (Status (approve csr now))))"
    by (simp add: elems_approve)
  moreover have "Type (approvedCondition now) = CertificateApproved"
    by (simp add: approvedCondition_def)
  ultimately have "getApprovalType (approve csr now) \<noteq> ''''"
    unfolding getApprovalType_empty_iff by blast
  then show ?thesis
    by (simp add: csrPredicate_def Let_def)
qed

lemma Reconcile_fetch_error:
  "Get_CertificateSigningRequest (client r) request = Inl err \<Longrightarrow>
   Reconcile r request now =
     (if IsNotFound err then terminalSuccess
      else \<lparr>outcome_of = Return emptyResult (Some err), submitted = []\<rparr>)"
  by (simp add: Reconcile_def terminalSuccess_def)

lemma Reconcile_deleting:
  "Get_CertificateSigningRequest (client r) request = Inr instance \<Longrightarrow>
   DeletionTimestamp instance \<noteq> None \<Longrightarrow>
   Reconcile r request now = terminalSuccess"
  by (simp add: Reconcile_def terminalSuccess_def)

lemma Reconcile_no_cluster:
  "Get_CertificateSigningRequest (client r) request = Inr instance \<Longrightarrow>
   Get_ManagedCluster (client r) ('''', getClusterName instance) = Inl err \<Longrightarrow>
   Reconcile r request now = terminalSuccess"
  by (simp add: Reconcile_def terminalSuccess_def)

lemma Reconcile_submit:
  "Get_CertificateSigningRequest (client r) request = Inr instance \<Longrightarrow>
   DeletionTimestamp instance = None \<Longrightarrow>
   Get_ManagedCluster (client r) ('''', getClusterName instance) = Inr cluster \<Longrightarrow>
   kubeClient r = Some kc \<Longrightarrow>
   Reconcile r request now =
     \<lparr>outcome_of =
        Return emptyResult
          (case UpdateApproval kc (approve instance now) of Inl err \<Rightarrow> Some err | Inr updated \<Rightarrow> None),
      submitted = [approve instance now]\<rparr>"
  by (simp add: Reconcile_def split: sum.splits)

lemma Reconcile_nil_client:
  "Get_CertificateSigningRequest (client r) request = Inr instance \<Longrightarrow>
   DeletionTimestamp instance = None \<Longrightarrow>
   Get_ManagedCluster (client r) ('''', getClusterName instance) = Inr cluster \<Longrightarrow>
   kubeClient r = None \<Longrightarrow>
   Reconcile r request now = \<lparr>outcome_of = Panic, submitted = []\<rparr>"
  by (simp add: Reconcile_def)

lemma Reconcile_error_iff:
  "(\<exists>res e. outcome_of (Reconcile r request now) = Return res (Some e)) \<longleftrightarrow>
   (\<exists>err. Get_CertificateSigningRequest (client r) request = Inl err \<and> \<not> IsNotFound err) \<or>
   (\<exists>instance cluster kc err.
      Get_CertificateSigningRequest (client r) request = Inr instance \<and>
      DeletionTimestamp instance = None \<and>
      Get_ManagedCluster (client r) ('''', getClusterName instance) = Inr cluster \<and>
      kubeClient r = Some kc \<and>
      UpdateApproval kc (approve instance now) = Inl err)"
  by (auto simp: Reconcile_def Let_def split: sum.splits option.splits if_splits)

subsection \<open>The claims\<close>

subsubsection \<open>C1: Reconcile on a CSR that already carries Approved or Denied\<close>

text \<open>
  Claim C1 says that Reconcile is a no-op on every CSR that already carries an Approved or
  Denied condition. It is not: \<open>Reconcile\<close> never calls \<open>getApprovalType\<close>. On the
  CSR \<open>csr-1\<close> of cluster \<open>alpha\<close> that already holds one Approved condition, with
  \<open>alpha\<close> registered, it submits one update carrying two conditions.
\<close>

theorem Reconcile_terminal_csr_resubmits:
  "getApprovalType csr_approved = ''Approved'' \<and>
   length (elems (Conditions (Status csr_approved))) = 1 \<and>
   Reconcile (reconciler_with csr_approved [cluster_alpha]) ('''', ''csr-1'') 5 =
     \<lparr>outcome_of = Return emptyResult None, submitted = [approve csr_approved 5]\<rparr> \<and>
   length (elems (Conditions (Status (approve csr_approved 5)))) = 2"
  by (simp add: scenario_defs code_defs)

text \<open>
  Claim C1, amended. A CSR that already carries a condition of type Approved or Denied is
  rejected by \<open>csrPredicate\<close>, hence by both event filters of the watch. \<open>Reconcile\<close>
  itself has no such guard: once it has fetched that CSR it does nothing when the CSR is
  marked for deletion or the fetch of the registry entry fails, and when the CSR is live,
  the registry entry exists and the kube client is present it submits one update whose
  condition list is one longer.
\<close>

theorem terminal_csr_filtered_not_guarded:
  assumes "c \<in> set (elems (Conditions (Status csr)))"
    and "Type c = CertificateApproved \<or> Type c = CertificateDenied"
  shows "\<not> csrPredicate csr \<and> \<not> CreateFunc csr \<and> \<not> UpdateFunc previous csr \<and>
    (Get_CertificateSigningRequest (client r) request = Inr csr \<longrightarrow>
       (DeletionTimestamp csr \<noteq> None \<or>
        (\<exists>err. Get_ManagedCluster (client r) ('''', getClusterName csr) = Inl err) \<longrightarrow>
          Reconcile r request now = \<lparr>outcome_of = Return emptyResult None, submitted = []\<rparr>) \<and>
       (DeletionTimestamp csr = None \<and>
        (\<exists>cluster. Get_ManagedCluster (client r) ('''', getClusterName csr) = Inr cluster) \<and>
        kubeClient r \<noteq> None \<longrightarrow>
          submitted (Reconcile r request now) = [approve csr now] \<and>
          length (elems (Conditions (Status (approve csr now)))) =
            Suc (length (elems (Conditions (Status csr))))))"
proof -
  from assms have "getApprovalType csr \<noteq> ''''"
    by (auto simp: getApprovalType_empty_iff)
  then have filtered: "\<not> csrPredicate csr"
    by (simp add: csrPredicate_def Let_def)
  have noop: "Reconcile r request now = \<lparr>outcome_of = Return emptyResult None, submitted = []\<rparr>"
    if "Get_CertificateSigningRequest (client r) request = Inr csr"
      and "DeletionTimestamp csr \<noteq> None \<or>
        (\<exists>err. Get_ManagedCluster (client r) ('''', getClusterName csr) = Inl err)"
    using that Reconcile_deleting [of r request csr now]
      Reconcile_no_cluster [of r request csr _ now]
    by (auto simp: terminalSuccess_def)
  have again: "submitted (Reconcile r request now) = [approve csr now]"
    if "Get_CertificateSigningRequest (client r) request = Inr csr"
      and "DeletionTimestamp csr = None"
      and "\<exists>cluster. Get_ManagedCluster (client r) ('''', getClusterName csr) = Inr cluster"
      and "kubeClient r \<noteq> None"
    using that Reconcile_submit [of r request csr _ _ now] by auto
  from filtered noop again show ?thesis
    by (simp add: CreateFunc_def UpdateFunc_def elems_approve)
qed

theorem terminal_csr_filtered_not_guarded_witness:
  "approvedCondition 1 \<in> set (elems (Conditions (Status csr_approved))) \<and>
   Type (approvedCondition 1) = CertificateApproved \<and>
   \<not> csrPredicate csr_approved \<and>
   Reconcile (reconciler_with csr_approved []) ('''', ''csr-1'') 5 =
     \<lparr>outcome_of = Return emptyResult None, submitted = []\<rparr> \<and>
   submitted (Reconcile (reconciler_with csr_approved [cluster_alpha]) ('''', ''csr-1'') 5) =
     [approve csr_approved 5]"
proof -
  have mem: "approvedCondition 1 \<in> set (elems (Conditions (Status csr_approved)))"
    by (simp add: csr_approved_def)
  have ty: "Type (approvedCondition 1) = CertificateApproved \<or> Type (approvedCondition 1) = CertificateDenied"
    by (simp add: approvedCondition_def)
  have fetch: "Get_CertificateSigningRequest (client (reconciler_with csr_approved cs)) ('''', ''csr-1'') = Inr csr_approved" for cs
    by (simp add: scenario_defs)
  have absent: "Get_ManagedCluster (client (reconciler_with csr_approved [])) ('''', getClusterName csr_approved) = Inl NotFound"
    by (simp add: scenario_defs)
  have present: "Get_ManagedCluster (client (reconciler_with csr_approved [cluster_alpha])) ('''', getClusterName csr_approved) = Inr cluster_alpha"
    by (simp add: scenario_defs getClusterName_def clusterLabel_def)
  have live: "DeletionTimestamp csr_approved = None"
    by (simp add: scenario_defs)
  have kc: "kubeClient (reconciler_with csr_approved [cluster_alpha]) \<noteq> None"
    by (simp add: scenario_defs)
  from terminal_csr_filtered_not_guarded [OF mem ty, of csr_approved "reconciler_with csr_approved []" "('''', ''csr-1'')" 5]
    fetch absent
  have 1: "\<not> csrPredicate csr_approved"
    and 2: "Reconcile (reconciler_with csr_approved []) ('''', ''csr-1'') 5 =
     \<lparr>outcome_of = Return emptyResult None, submitted = []\<rparr>"
    by blast+
  from terminal_csr_filtered_not_guarded [OF mem ty, of csr_approved "reconciler_with csr_approved [cluster_alpha]" "('''', ''csr-1'')" 5]
    fetch present live kc
  have 3: "submitted (Reconcile (reconciler_with csr_approved [cluster_alpha]) ('''', ''csr-1'') 5) =
     [approve csr_approved 5]"
    by blast
  from mem 1 2 3 show ?thesis by (simp add: approvedCondition_def)
qed

subsubsection \<open>C2: Reconcile on a CSR whose Username is not the bootstrap identity\<close>

text \<open>
  Claim C2 says that a CSR whose Username differs from the bootstrap identity of its
  labelled cluster is not eligible and that Reconcile writes nothing for it. The first half
  holds, the second does not: \<open>Reconcile\<close> never calls \<open>validUsername\<close>. The
  specification's own scenario (label \<open>alpha\<close>, Username of \<open>beta\<close>, \<open>alpha\<close>
  registered) ends with one submitted update.
\<close>

theorem Reconcile_username_mismatch_submits:
  "getClusterName csr_beta_user = ''alpha'' \<and>
   Username (Spec csr_beta_user) = ''system:serviceaccount:beta:alpha-bootstrap-sa'' \<and>
   userNameSignature ''alpha'' ''alpha'' = ''system:serviceaccount:alpha:alpha-bootstrap-sa'' \<and>
   \<not> csrPredicate csr_beta_user \<and>
   Reconcile (reconciler_with csr_beta_user [cluster_alpha]) ('''', ''csr-1'') 5 =
     \<lparr>outcome_of = Return emptyResult None, submitted = [approve csr_beta_user 5]\<rparr>"
  by (simp add: scenario_defs code_defs)

text \<open>
  Claim C2, amended. A CSR whose Username is not exactly
  \<open>system:serviceaccount:<cluster>:<cluster>-bootstrap-sa\<close> for the cluster name read from
  its label is rejected by \<open>csrPredicate\<close>, hence by both event filters of the watch.
  \<open>Reconcile\<close> itself does not compare the Username: once it has fetched that CSR it
  writes nothing when the CSR is marked for deletion or the fetch of the registry entry
  fails, and when the CSR is live, the registry entry exists and the kube client is present
  it submits one approval update.
\<close>

theorem username_mismatch_filtered_not_guarded:
  assumes "Username (Spec csr) \<noteq> userNameSignature (getClusterName csr) (getClusterName csr)"
  shows "\<not> csrPredicate csr \<and> \<not> CreateFunc csr \<and> \<not> UpdateFunc previous csr \<and>
    (Get_CertificateSigningRequest (client r) request = Inr csr \<longrightarrow>
       (DeletionTimestamp csr \<noteq> None \<or>
        (\<exists>err. Get_ManagedCluster (client r) ('''', getClusterName csr) = Inl err) \<longrightarrow>
          Reconcile r request now = \<lparr>outcome_of = Return emptyResult None, submitted = []\<rparr>) \<and>
       (DeletionTimestamp csr = None \<and>
        (\<exists>cluster. Get_ManagedCluster (client r) ('''', getClusterName csr) = Inr cluster) \<and>
        kubeClient r \<noteq> None \<longrightarrow>
          submitted (Reconcile r request now) = [approve csr now]))"
proof -
  from assms have filtered: "\<not> csrPredicate csr"
    by (simp add: csrPredicate_def Let_def validUsername_def)
  have noop: "Reconcile r request now = \<lparr>outcome_of = Return emptyResult None, submitted = []\<rparr>"
    if "Get_CertificateSigningRequest (client r) request = Inr csr"
      and "DeletionTimestamp csr \<noteq> None \<or>
        (\<exists>err. Get_ManagedCluster (client r) ('''', getClusterName csr) = Inl err)"
    using that Reconcile_deleting [of r request csr now]
      Reconcile_no_cluster [of r request csr _ now]
    by (auto simp: terminalSuccess_def)
  have again: "submitted (Reconcile r request now) = [approve csr now]"
    if "Get_CertificateSigningRequest (client r) request = Inr csr"
      and "DeletionTimestamp csr = None"
      and "\<exists>cluster. Get_ManagedCluster (client r) ('''', getClusterName csr) = Inr cluster"
      and "kubeClient r \<noteq> None"
    using that Reconcile_submit [of r request csr _ _ now] by auto
  from filtered noop again show ?thesis
    by (simp add: CreateFunc_def UpdateFunc_def)
qed

theorem username_mismatch_filtered_not_guarded_witness:
  "Username (Spec csr_beta_user) \<noteq>
     userNameSignature (getClusterName csr_beta_user) (getClusterName csr_beta_user) \<and>
   \<not> csrPredicate csr_beta_user \<and>
   Reconcile (reconciler_with csr_beta_user []) ('''', ''csr-1'') 5 =
     \<lparr>outcome_of = Return emptyResult None, submitted = []\<rparr> \<and>
   submitted (Reconcile (reconciler_with csr_beta_user [cluster_alpha]) ('''', ''csr-1'') 5) =
     [approve csr_beta_user 5]"
proof -
  have mismatch: "Username (Spec csr_beta_user) \<noteq>
     userNameSignature (getClusterName csr_beta_user) (getClusterName csr_beta_user)"
    by (simp add: scenario_defs getClusterName_def clusterLabel_def userNameSignature_def)
  have fetch: "Get_CertificateSigningRequest (client (reconciler_with csr_beta_user cs)) ('''', ''csr-1'') = Inr csr_beta_user" for cs
    by (simp add: scenario_defs)
  have absent: "Get_ManagedCluster (client (reconciler_with csr_beta_user [])) ('''', getClusterName csr_beta_user) = Inl NotFound"
    by (simp add: scenario_defs)
  have present: "Get_ManagedCluster (client (reconciler_with csr_beta_user [cluster_alpha])) ('''', getClusterName csr_beta_user) = Inr cluster_alpha"
    by (simp add: scenario_defs getClusterName_def clusterLabel_def)
  have live: "DeletionTimestamp csr_beta_user = None"
    by (simp add: scenario_defs)
  have kc: "kubeClient (reconciler_with csr_beta_user [cluster_alpha]) \<noteq> None"
    by (simp add: scenario_defs)
  from username_mismatch_filtered_not_guarded [OF mismatch, of _ "reconciler_with csr_beta_user []" "('''', ''csr-1'')" 5]
    fetch absent
  have 1: "\<not> csrPredicate csr_beta_user"
    and 2: "Reconcile (reconciler_with csr_beta_user []) ('''', ''csr-1'') 5 =
     \<lparr>outcome_of = Return emptyResult None, submitted = []\<rparr>"
    by blast+
  from username_mismatch_filtered_not_guarded [OF mismatch, of _ "reconciler_with csr_beta_user [cluster_alpha]" "('''', ''csr-1'')" 5]
    fetch present live kc
  have 3: "submitted (Reconcile (reconciler_with csr_beta_user [cluster_alpha]) ('''', ''csr-1'') 5) =
     [approve csr_beta_user 5]"
    by blast
  from mismatch 1 2 3 show ?thesis by simp
qed

subsubsection \<open>C3: an eligible CSR of a registered cluster\<close>

text \<open>
  Claim C3 says that every eligible CSR whose cluster is registered gets one Approved
  condition and one update from a single Reconcile. The guard on \<open>DeletionTimestamp\<close>
  comes first: an eligible CSR that is marked for deletion is left alone.
\<close>

theorem Reconcile_eligible_deleting_no_submission:
  "csrPredicate csr_deleting \<and>
   Get_ManagedCluster (client (reconciler_with csr_deleting [cluster_alpha]))
     ('''', getClusterName csr_deleting) = Inr cluster_alpha \<and>
   Reconcile (reconciler_with csr_deleting [cluster_alpha]) ('''', ''csr-1'') 5 =
     \<lparr>outcome_of = Return emptyResult None, submitted = []\<rparr>"
  by (simp add: scenario_defs code_defs)

text \<open>
  Claim C3, amended. For every eligible CSR that Reconcile fetches, that is not marked for
  deletion and whose cluster has a registry entry, a Reconcile with a kube client at hand
  submits exactly one approval update. The submitted object is the fetched CSR with one
  condition appended at the end of its condition list and nothing else changed; the
  condition has type Approved, the fixed reason and message, and the current time; it is
  the only Approved or Denied condition of the list.
\<close>

theorem Reconcile_eligible_appends_approved:
  assumes "Get_CertificateSigningRequest (client r) request = Inr csr"
    and "csrPredicate csr"
    and "DeletionTimestamp csr = None"
    and "Get_ManagedCluster (client r) ('''', getClusterName csr) = Inr cluster"
    and "kubeClient r = Some kc"
  shows "submitted (Reconcile r request now) = [approve csr now] \<and>
    approve csr now =
      csr\<lparr>Status := \<lparr>Conditions = Some (elems (Conditions (Status csr)) @
        [\<lparr>Type = ''Approved'',
          Reason = ''AutoApprovedByCSRController'',
          Message = ''The managedcluster-import-controller auto approval automatically approved this CSR'',
          LastUpdateTime = now\<rparr>])\<rparr>\<rparr> \<and>
    filter (\<lambda>c. Type c = CertificateApproved \<or> Type c = CertificateDenied)
      (elems (Conditions (Status (approve csr now)))) = [approvedCondition now]"
proof -
  from assms have sub: "submitted (Reconcile r request now) = [approve csr now]"
    by (simp add: Reconcile_submit)
  from assms(2) have "getApprovalType csr = ''''"
    by (simp add: csrPredicate_def Let_def)
  then have "filter (\<lambda>c. Type c = CertificateApproved \<or> Type c = CertificateDenied)
      (elems (Conditions (Status csr))) = []"
    by (auto simp: getApprovalType_empty_iff filter_empty_conv)
  then have one: "filter (\<lambda>c. Type c = CertificateApproved \<or> Type c = CertificateDenied)
      (elems (Conditions (Status (approve csr now)))) = [approvedCondition now]"
    by (simp add: elems_approve approvedCondition_def)
  have shape: "approve csr now =
      csr\<lparr>Status := \<lparr>Conditions = Some (elems (Conditions (Status csr)) @
        [\<lparr>Type = ''Approved'',
          Reason = ''AutoApprovedByCSRController'',
          Message = ''The managedcluster-import-controller auto approval automatically approved this CSR'',
          LastUpdateTime = now\<rparr>])\<rparr>\<rparr>"
    by (simp add: approve_eq approvedCondition_def CertificateApproved_def)
  from sub one shape show ?thesis by blast
qed

theorem Reconcile_eligible_appends_approved_witness:
  "Get_CertificateSigningRequest (client (reconciler_with csr_alpha [cluster_alpha])) ('''', ''csr-1'') = Inr csr_alpha \<and>
   csrPredicate csr_alpha \<and>
   DeletionTimestamp csr_alpha = None \<and>
   Get_ManagedCluster (client (reconciler_with csr_alpha [cluster_alpha])) ('''', getClusterName csr_alpha) = Inr cluster_alpha \<and>
   kubeClient (reconciler_with csr_alpha [cluster_alpha]) = Some accepting \<and>
   submitted (Reconcile (reconciler_with csr_alpha [cluster_alpha]) ('''', ''csr-1'') 5) = [approve csr_alpha 5] \<and>
   elems (Conditions (Status (approve csr_alpha 5))) = [approvedCondition 5]"
proof -
  have fetch: "Get_CertificateSigningRequest (client (reconciler_with csr_alpha [cluster_alpha])) ('''', ''csr-1'') = Inr csr_alpha"
    by (simp add: scenario_defs)
  have eligible: "csrPredicate csr_alpha"
    by (simp add: scenario_defs code_defs)
  have live: "DeletionTimestamp csr_alpha = None"
    by (simp add: scenario_defs)
  have present: "Get_ManagedCluster (client (reconciler_with csr_alpha [cluster_alpha])) ('''', getClusterName csr_alpha) = Inr cluster_alpha"
    by (simp add: scenario_defs getClusterName_def clusterLabel_def)
  have kc: "kubeClient (reconciler_with csr_alpha [cluster_alpha]) = Some accepting"
    by (simp add: scenario_defs)
  have conds: "elems (Conditions (Status (approve csr_alpha 5))) = [approvedCondition 5]"
    by (simp add: elems_approve csr_alpha_def)
  from Reconcile_eligible_appends_approved [OF fetch eligible live present kc, of 5]
    fetch eligible live present kc conds
  show ?thesis by blast
qed

subsubsection \<open>C4: the eligibility predicate\<close>

text \<open>
  Claim C4. \<open>csrPredicate\<close> (the specification's IsEligible) is a function of the CSR
  alone, and on a CSR whose label keys are distinct, as the keys of a Go map are, it is true
  exactly when the cluster-name label is present with a non-empty value \<open>v\<close>, no
  condition has type Approved or Denied, and the Username is
  \<open>system:serviceaccount:v:v-bootstrap-sa\<close>, character for character.
\<close>

theorem csrPredicate_iff:
  assumes "distinct (map fst (Labels csr))"
  shows "csrPredicate csr \<longleftrightarrow>
    (\<exists>v. map_of (Labels csr) clusterLabel = Some v \<and> v \<noteq> '''' \<and>
       (\<forall>c \<in> set (elems (Conditions (Status csr))).
          Type c \<noteq> CertificateApproved \<and> Type c \<noteq> CertificateDenied) \<and>
       Username (Spec csr) = ''system:serviceaccount:'' @ v @ '':'' @ v @ ''-bootstrap-sa'')"
proof -
  from assms have name: "getClusterName csr =
      (case map_of (Labels csr) clusterLabel of None \<Rightarrow> '''' | Some v \<Rightarrow> v)"
    by (simp add: getClusterName_def getClusterName_loop_distinct)
  show ?thesis
  proof (cases "map_of (Labels csr) clusterLabel")
    case None
    with name show ?thesis by (simp add: csrPredicate_def)
  next
    case (Some v)
    with name show ?thesis
      by (auto simp: csrPredicate_def validUsername_def userNameSignature_def
          getApprovalType_empty_iff)
  qed
qed

theorem csrPredicate_iff_witness:
  "distinct (map fst (Labels csr_alpha)) \<and> csrPredicate csr_alpha \<and>
   distinct (map fst (Labels csr_approved)) \<and> \<not> csrPredicate csr_approved"
proof -
  have d1: "distinct (map fst (Labels csr_alpha))"
    and d2: "distinct (map fst (Labels csr_approved))"
    by (simp_all add: scenario_defs)
  have "csrPredicate csr_alpha"
    unfolding csrPredicate_iff [OF d1]
    by (simp add: scenario_defs clusterLabel_def)
  moreover have "\<not> csrPredicate csr_approved"
    unfolding csrPredicate_iff [OF d2]
    by (simp add: scenario_defs clusterLabel_def approvedCondition_def)
  ultimately show ?thesis using d1 d2 by simp
qed

subsubsection \<open>C5: the registry entry cannot be fetched\<close>

text \<open>
  Claim C5. When the fetch of the registry entry named by the CSR's cluster label answers
  with an error, not-found or any other, Reconcile submits nothing and returns the empty
  result with no error: no requeue.
\<close>

theorem Reconcile_registry_fetch_fails:
  assumes "Get_CertificateSigningRequest (client r) request = Inr csr"
    and "Get_ManagedCluster (client r) ('''', getClusterName csr) = Inl err"
  shows "Reconcile r request now =
    \<lparr>outcome_of = Return \<lparr>Requeue = False, RequeueAfter = 0\<rparr> None, submitted = []\<rparr>"
  using assms by (simp add: Reconcile_no_cluster terminalSuccess_def emptyResult_def)

theorem Reconcile_registry_fetch_fails_witness:
  "Get_CertificateSigningRequest (client (reconciler_with csr_alpha [])) ('''', ''csr-1'') = Inr csr_alpha \<and>
   Get_ManagedCluster (client (reconciler_with csr_alpha [])) ('''', getClusterName csr_alpha) = Inl NotFound \<and>
   Reconcile (reconciler_with csr_alpha []) ('''', ''csr-1'') 5 =
     \<lparr>outcome_of = Return \<lparr>Requeue = False, RequeueAfter = 0\<rparr> None, submitted = []\<rparr>"
proof -
  have fetch: "Get_CertificateSigningRequest (client (reconciler_with csr_alpha [])) ('''', ''csr-1'') = Inr csr_alpha"
    by (simp add: scenario_defs)
  have absent: "Get_ManagedCluster (client (reconciler_with csr_alpha [])) ('''', getClusterName csr_alpha) = Inl NotFound"
    by (simp add: scenario_defs)
  from Reconcile_registry_fetch_fails [OF fetch absent, of 5] fetch absent
  show ?thesis by blast
qed

subsubsection \<open>C6: the CSR is gone\<close>

text \<open>
  Claim C6. When the fetch of the CSR reports not-found, Reconcile submits nothing and
  returns the empty result with no error.
\<close>

theorem Reconcile_csr_not_found:
  assumes "Get_CertificateSigningRequest (client r) request = Inl err"
    and "IsNotFound err"
  shows "Reconcile r request now =
    \<lparr>outcome_of = Return \<lparr>Requeue = False, RequeueAfter = 0\<rparr> None, submitted = []\<rparr>"
  using assms by (simp add: Reconcile_fetch_error terminalSuccess_def emptyResult_def)

theorem Reconcile_csr_not_found_witness:
  "Get_CertificateSigningRequest (client (reconciler_with csr_alpha [cluster_alpha])) ('''', ''csr-gone'') = Inl NotFound \<and>
   IsNotFound NotFound \<and>
   Reconcile (reconciler_with csr_alpha [cluster_alpha]) ('''', ''csr-gone'') 5 =
     \<lparr>outcome_of = Return \<lparr>Requeue = False, RequeueAfter = 0\<rparr> None, submitted = []\<rparr>"
proof -
  have fetch: "Get_CertificateSigningRequest (client (reconciler_with csr_alpha [cluster_alpha])) ('''', ''csr-gone'') = Inl NotFound"
    by (simp add: scenario_defs)
  have nf: "IsNotFound NotFound" by simp
  from Reconcile_csr_not_found [OF fetch nf, of 5] fetch nf show ?thesis by blast
qed

subsubsection \<open>C7: when Reconcile returns an error\<close>

text \<open>
  With a kube client at hand every Reconcile returns, and always the empty result.
\<close>

lemma Reconcile_returns_with_kubeClient:
  assumes "kubeClient r \<noteq> None"
  shows "\<exists>e. outcome_of (Reconcile r request now) = Return emptyResult e"
  using assms
  by (auto simp: Reconcile_def Let_def split: sum.splits option.splits if_splits)

text \<open>
  Claim C7 says that Reconcile returns an error exactly when the CSR fetch fails with
  something other than not-found or the submission fails, and returns success in every
  other case. The first half is \<open>Reconcile_error_iff\<close>. The second half fails for a
  reconciler that \<open>newReconciler\<close> built after the kube client could not be
  constructed: the CSR is fetched, is live, its cluster is registered, and the call ends in
  a nil dereference, returning neither an error nor success.
\<close>

theorem Reconcile_nil_kubeClient_no_result:
  "Get_CertificateSigningRequest (client (reconciler_without_kubeClient csr_alpha [cluster_alpha]))
     ('''', ''csr-1'') = Inr csr_alpha \<and>
   outcome_of (Reconcile (reconciler_without_kubeClient csr_alpha [cluster_alpha]) ('''', ''csr-1'') 5)
     = Panic"
  by (simp add: scenario_defs code_defs)

subsubsection \<open>C8: nothing is denied, nothing is revoked\<close>

text \<open>
  Claim C8. Every object that a Reconcile submits is the CSR it fetched with one condition
  appended: the conditions the CSR had are all still there, in their order, and the new one
  has type Approved, never Denied.
\<close>

theorem Reconcile_only_appends_approved:
  assumes "csr' \<in> set (submitted (Reconcile r request now))"
  shows "\<exists>csr c. Get_CertificateSigningRequest (client r) request = Inr csr \<and>
    csr' = csr\<lparr>Status := \<lparr>Conditions = Some (elems (Conditions (Status csr)) @ [c])\<rparr>\<rparr> \<and>
    elems (Conditions (Status csr')) = elems (Conditions (Status csr)) @ [c] \<and>
    Type c = CertificateApproved \<and> Type c \<noteq> CertificateDenied"
proof -
  from assms obtain csr where fetch: "Get_CertificateSigningRequest (client r) request = Inr csr"
    and eq: "csr' = approve csr now"
    by (auto simp: Reconcile_def Let_def split: sum.splits if_splits option.splits)
  have "Type (approvedCondition now) = CertificateApproved"
    and "Type (approvedCondition now) \<noteq> CertificateDenied"
    by (simp_all add: approvedCondition_def CertificateApproved_def CertificateDenied_def)
  with fetch eq approve_eq [of csr now] elems_approve [of csr now] show ?thesis
    by blast
qed

theorem Reconcile_only_appends_approved_witness:
  "approve csr_approved 5 \<in>
     set (submitted (Reconcile (reconciler_with csr_approved [cluster_alpha]) ('''', ''csr-1'') 5)) \<and>
   (\<exists>csr c. Get_CertificateSigningRequest (client (reconciler_with csr_approved [cluster_alpha]))
        ('''', ''csr-1'') = Inr csr \<and>
      elems (Conditions (Status (approve csr_approved 5))) = elems (Conditions (Status csr)) @ [c] \<and>
      Type c = CertificateApproved \<and> Type c \<noteq> CertificateDenied)"
proof -
  have mem: "approve csr_approved 5 \<in>
     set (submitted (Reconcile (reconciler_with csr_approved [cluster_alpha]) ('''', ''csr-1'') 5))"
    by (simp add: scenario_defs code_defs)
  from Reconcile_only_appends_approved [OF mem] mem show ?thesis by blast
qed

subsubsection \<open>C9: a CSR without the cluster-name label\<close>

text \<open>
  Claim C9. A CSR whose labels do not contain the cluster-name label is not eligible, and
  a Reconcile that fetches it submits nothing and returns success, given what the claim
  says of the registry: the lookup under the empty cluster name yields no entry.
\<close>

theorem unlabeled_csr_ineligible_no_submission:
  assumes "clusterLabel \<notin> fst ` set (Labels csr)"
  shows "\<not> csrPredicate csr \<and>
    (Get_CertificateSigningRequest (client r) request = Inr csr \<and>
     Get_ManagedCluster (client r) ('''', '''') = Inl err \<longrightarrow>
       Reconcile r request now =
         \<lparr>outcome_of = Return \<lparr>Requeue = False, RequeueAfter = 0\<rparr> None, submitted = []\<rparr>)"
proof -
  from assms have name: "getClusterName csr = ''''"
    by (simp add: getClusterName_def getClusterName_loop_absent)
  then have "\<not> csrPredicate csr"
    by (simp add: csrPredicate_def)
  moreover have "Reconcile r request now =
         \<lparr>outcome_of = Return \<lparr>Requeue = False, RequeueAfter = 0\<rparr> None, submitted = []\<rparr>"
    if "Get_CertificateSigningRequest (client r) request = Inr csr"
      and "Get_ManagedCluster (client r) ('''', '''') = Inl err"
    using that name Reconcile_no_cluster [of r request csr err now]
    by (simp add: terminalSuccess_def emptyResult_def)
  ultimately show ?thesis by blast
qed

theorem unlabeled_csr_ineligible_no_submission_witness:
  "clusterLabel \<notin> fst ` set (Labels csr_unlabeled) \<and>
   \<not> csrPredicate csr_unlabeled \<and>
   Get_CertificateSigningRequest (client (reconciler_with csr_unlabeled [cluster_alpha])) ('''', ''csr-1'') = Inr csr_unlabeled \<and>
   Get_ManagedCluster (client (reconciler_with csr_unlabeled [cluster_alpha])) ('''', '''') = Inl NotFound \<and>
   Reconcile (reconciler_with csr_unlabeled [cluster_alpha]) ('''', ''csr-1'') 5 =
     \<lparr>outcome_of = Return \<lparr>Requeue = False, RequeueAfter = 0\<rparr> None, submitted = []\<rparr>"
proof -
  have nolabel: "clusterLabel \<notin> fst ` set (Labels csr_unlabeled)"
    by (simp add: scenario_defs)
  have fetch: "Get_CertificateSigningRequest (client (reconciler_with csr_unlabeled [cluster_alpha])) ('''', ''csr-1'') = Inr csr_unlabeled"
    by (simp add: scenario_defs)
  have absent: "Get_ManagedCluster (client (reconciler_with csr_unlabeled [cluster_alpha])) ('''', '''') = Inl NotFound"
    by (simp add: scenario_defs)
  from unlabeled_csr_ineligible_no_submission [OF nolabel, of "reconciler_with csr_unlabeled [cluster_alpha]" "('''', ''csr-1'')" NotFound 5]
    nolabel fetch absent
  show ?thesis by blast
qed

subsubsection \<open>C10: the kube client at the submission step\<close>

text \<open>
  Claim C10 says that a Reconcile that reaches the submission step has a kube client.
  The code does not keep it: \<open>newReconciler\<close> answers a failed construction of the
  kube client with a reconciler whose \<open>kubeClient\<close> is nil, and every Reconcile of that
  reconciler that gets past the registry fetch dereferences it and panics, with nothing
  submitted.
\<close>

theorem newReconciler_nil_kubeClient_panics:
  assumes "Get_CertificateSigningRequest (GetClient mgr) request = Inr csr"
    and "DeletionTimestamp csr = None"
    and "Get_ManagedCluster (GetClient mgr) ('''', getClusterName csr) = Inr cluster"
  shows "kubeClient (newReconciler mgr (Inl err)) = None \<and>
    Reconcile (newReconciler mgr (Inl err)) request now = \<lparr>outcome_of = Panic, submitted = []\<rparr>"
proof -
  have nil: "kubeClient (newReconciler mgr (Inl err)) = None"
    and cl: "client (newReconciler mgr (Inl err)) = GetClient mgr"
    by (simp_all add: newReconciler_def)
  from assms cl Reconcile_nil_client [of "newReconciler mgr (Inl err)" request csr cluster now] nil
  show ?thesis by simp
qed

theorem newReconciler_nil_kubeClient_panics_witness:
  "Get_CertificateSigningRequest (GetClient \<lparr>GetClient = store_with csr_alpha [cluster_alpha]\<rparr>) ('''', ''csr-1'') = Inr csr_alpha \<and>
   DeletionTimestamp csr_alpha = None \<and>
   Get_ManagedCluster (GetClient \<lparr>GetClient = store_with csr_alpha [cluster_alpha]\<rparr>) ('''', getClusterName csr_alpha) = Inr cluster_alpha \<and>
   Reconcile (newReconciler \<lparr>GetClient = store_with csr_alpha [cluster_alpha]\<rparr> (Inl Conflict)) ('''', ''csr-1'') 5 =
     \<lparr>outcome_of = Panic, submitted = []\<rparr>"
proof -
  have fetch: "Get_CertificateSigningRequest (GetClient \<lparr>GetClient = store_with csr_alpha [cluster_alpha]\<rparr>) ('''', ''csr-1'') = Inr csr_alpha"
    by (simp add: scenario_defs)
  have live: "DeletionTimestamp csr_alpha = None"
    by (simp add: scenario_defs)
  have present: "Get_ManagedCluster (GetClient \<lparr>GetClient = store_with csr_alpha [cluster_alpha]\<rparr>) ('''', getClusterName csr_alpha) = Inr cluster_alpha"
    by (simp add: scenario_defs getClusterName_def clusterLabel_def)
  from newReconciler_nil_kubeClient_panics [OF fetch live present, of Conflict 5] fetch live present
  show ?thesis by blast
qed

end
